theory Spec2Isabelle
  imports Main
begin

section \<open>The Airflow DAG check: data\<close>

text \<open>
  The program is \<^verbatim>\<open>cmd/airflow-dag-check/main.go\<close>. Go strings are byte sequences and
  are modelled as \<^typ>\<open>string\<close>. A Go \<^verbatim>\<open>error\<close> value is modelled by its message, and a
  possibly-nil error by an \<^typ>\<open>string option\<close> (\<open>None\<close> is \<^verbatim>\<open>nil\<close>). A possibly-nil
  pointer \<^verbatim>\<open>*T\<close> is a \<open>T option\<close>.
\<close>

type_synonym error = string

text \<open>The newline byte written \<^verbatim>\<open>\n\<close> in the Go format strings.\<close>

definition nl :: string where
  "nl = [CHR 0x0A]"

text \<open>The verb \<^verbatim>\<open>%v\<close> applied to an error value; a nil value prints as \<^verbatim>\<open><nil>\<close>.\<close>

definition fmt_v :: "error option \<Rightarrow> string" where
  "fmt_v err = (case err of None \<Rightarrow> ''<nil>'' | Some e \<Rightarrow> e)"

text \<open>
  Modelled from the spec: the four check states of the Sensu plugin SDK
  (\<^verbatim>\<open>sensu.CheckStateOK\<close> and its siblings), which the program imports and which the
  specification gives as OK / WARNING / CRITICAL / UNKNOWN, conventionally 0/1/2/3.
  \<^verbatim>\<open>Health.Status\<close> is a Go \<^verbatim>\<open>int\<close>.
\<close>

definition CheckStateOK :: int where
  "CheckStateOK = 0"

definition CheckStateWarning :: int where
  "CheckStateWarning = 1"

definition CheckStateCritical :: int where
  "CheckStateCritical = 2"

definition CheckStateUnknown :: int where
  "CheckStateUnknown = 3"

text \<open>The struct \<^verbatim>\<open>Config\<close> (the global \<^verbatim>\<open>plugin\<close>), passed explicitly.\<close>

record Config =
  AirflowApiUrl :: string
  AirflowUsername :: string
  AirflowPassword :: string
  Dags :: "string list"
  Timeout :: int

record Dag =
  DagId :: string
  IsPaused :: bool

record DagList =
  Dags :: "Dag list"
  TotalEntries :: int

record DagRun =
  State :: string

record DagRunList =
  DagRuns :: "DagRun list"
  TotalEntries :: int

record Health =
  DagId :: string
  Status :: int
  Error :: "error option"

text \<open>
  The ways in which the Go runtime ends the program that the code can reach: the run-time
  panics "makeslice: len out of range", "index out of range" and "nil pointer dereference",
  and the fatal error "out of memory".
\<close>

datatype go_panic = MakesliceLenOutOfRange | OutOfMemory | IndexOutOfRange | NilDereference

text \<open>
  The limits of the Go runtime on one allocation are parameters of the model:
  \<open>maxAlloc\<close> is the runtime's bound on the size in bytes of one allocation (a constant
  of the platform, \<open>2^48\<close> on linux/amd64), and \<open>heapFree\<close> is the size in bytes that
  the heap can still provide when the allocation is made. Neither is negative in a run of
  the program.
\<close>

record Runtime =
  maxAlloc :: int
  heapFree :: int

section \<open>The HTTP client and the JSON decoder\<close>

text \<open>
  A request as the program builds it: method, URL, the headers set with
  \<^verbatim>\<open>Header.Set\<close> and the credentials given to \<^verbatim>\<open>SetBasicAuth\<close>.
\<close>

record Request =
  Method :: string
  URL :: string
  Header :: "(string \<times> string) list"
  BasicAuth :: "(string \<times> string) option"

text \<open>
  The standard library and the remote service are parameters of the model.
  \<open>NewRequest_error\<close> is the validation of \<^verbatim>\<open>http.NewRequest\<close> (method and URL);
  \<open>Do\<close> is \<^verbatim>\<open>client.Do\<close>: given the requests already sent in this execution and
  the request at hand, it yields a transport error or the response body; the three decoders
  are \<^verbatim>\<open>json.NewDecoder(body).Decode\<close> at the three payload types. The state threaded
  through the program is the list of requests handed to \<^verbatim>\<open>client.Do\<close> so far, oldest first.
\<close>

record Client =
  NewRequest_error :: "string \<Rightarrow> string \<Rightarrow> error option"
  Do :: "Request list \<Rightarrow> Request \<Rightarrow> error + string"
  Decode_Dag :: "string \<Rightarrow> error + Dag"
  Decode_DagList :: "string \<Rightarrow> error + DagList"
  Decode_DagRunList :: "string \<Rightarrow> error + DagRunList"

definition NewRequest :: "Client \<Rightarrow> string \<Rightarrow> string \<Rightarrow> error + Request" where
  "NewRequest client method url =
     (case NewRequest_error client method url of
        Some err \<Rightarrow> Inl err
      | None \<Rightarrow> Inr \<lparr>Method = method, URL = url, Header = [], BasicAuth = None\<rparr>)"

definition Header_Set :: "string \<Rightarrow> string \<Rightarrow> Request \<Rightarrow> Request" where
  "Header_Set k v req = req\<lparr>Header := (k, v) # filter (\<lambda>kv. fst kv \<noteq> k) (Header req)\<rparr>"

definition SetBasicAuth :: "string \<Rightarrow> string \<Rightarrow> Request \<Rightarrow> Request" where
  "SetBasicAuth username password req = req\<lparr>BasicAuth := Some (username, password)\<rparr>"

definition TrimSuffix :: "string \<Rightarrow> string \<Rightarrow> string" where
  "TrimSuffix s suffix =
     (if length suffix \<le> length s \<and> drop (length s - length suffix) s = suffix
      then take (length s - length suffix) s else s)"

definition getAirflowApiUrl :: "Config \<Rightarrow> string" where
  "getAirflowApiUrl plugin = TrimSuffix (AirflowApiUrl plugin) ''/'' @ ''/api/v1''"

section \<open>The three queries\<close>

definition getDag ::
  "Client \<Rightarrow> Config \<Rightarrow> string \<Rightarrow> Request list \<Rightarrow> (Dag option \<times> error option) \<times> Request list" where
  "getDag client plugin dagId sent =
     (case NewRequest client ''GET'' (getAirflowApiUrl plugin @ ''/dags/'' @ dagId) of
        Inl err \<Rightarrow> ((None, Some err), sent)
      | Inr req0 \<Rightarrow>
          (let req = SetBasicAuth (AirflowUsername plugin) (AirflowPassword plugin)
                       (Header_Set ''Accept'' ''application/json'' req0)
           in case Do client sent req of
                Inl err \<Rightarrow> ((None, Some err), sent @ [req])
              | Inr body \<Rightarrow>
                  (case Decode_Dag client body of
                     Inl err \<Rightarrow>
                       ((None, Some (''failed to decode dag response: '' @ fmt_v (Some err))),
                        sent @ [req])
                   | Inr result \<Rightarrow> ((Some result, None), sent @ [req]))))"

definition getAllDags ::
  "Client \<Rightarrow> Config \<Rightarrow> Request list \<Rightarrow> (DagList option \<times> error option) \<times> Request list" where
  "getAllDags client plugin sent =
     (case NewRequest client ''GET'' (getAirflowApiUrl plugin @ ''/dags'') of
        Inl err \<Rightarrow> ((None, Some err), sent)
      | Inr req0 \<Rightarrow>
          (let req = SetBasicAuth (AirflowUsername plugin) (AirflowPassword plugin)
                       (Header_Set ''Accept'' ''application/json'' req0)
           in case Do client sent req of
                Inl err \<Rightarrow> ((None, Some err), sent @ [req])
              | Inr body \<Rightarrow>
                  (case Decode_DagList client body of
                     Inl err \<Rightarrow>
                       ((None, Some (''failed to decode dag list response: '' @ fmt_v (Some err))),
                        sent @ [req])
                   | Inr result \<Rightarrow> ((Some result, None), sent @ [req]))))"

definition getLatestDagRun ::
  "Client \<Rightarrow> Config \<Rightarrow> string \<Rightarrow> Request list \<Rightarrow> (DagRun option \<times> error option) \<times> Request list" where
  "getLatestDagRun client plugin dagId sent =
     (case NewRequest client ''GET''
             (getAirflowApiUrl plugin @ ''/dags/'' @ dagId @ ''/dagRuns?limit=1'') of
        Inl err \<Rightarrow> ((None, Some err), sent)
      | Inr req0 \<Rightarrow>
          (let req = SetBasicAuth (AirflowUsername plugin) (AirflowPassword plugin)
                       (Header_Set ''Accept'' ''application/json'' req0)
           in case Do client sent req of
                Inl err \<Rightarrow> ((None, Some err), sent @ [req])
              | Inr body \<Rightarrow>
                  (case Decode_DagRunList client body of
                     Inl err \<Rightarrow>
                       ((None,
                         Some (''failed to decode dag run list response: '' @ fmt_v (Some err))),
                        sent @ [req])
                   | Inr result \<Rightarrow>
                       (if length (DagRuns result) = 0 then ((None, None), sent @ [req])
                        else ((Some (hd (DagRuns result)), None), sent @ [req])))))"

section \<open>The classifier\<close>

text \<open>
  \<open>checkDag\<close> is the body of the loop of \<^verbatim>\<open>checkDags\<close> for one identifier;
  \<open>checkDags_loop\<close> is the loop, appending to \<^verbatim>\<open>result\<close>.
\<close>

definition checkDag ::
  "Client \<Rightarrow> Config \<Rightarrow> bool \<Rightarrow> string \<Rightarrow> Request list \<Rightarrow> Health \<times> Request list" where
  "checkDag client plugin explicit dagId sent =
     (let health = \<lparr>DagId = dagId, Status = CheckStateOK, Error = None\<rparr>;
          ((dag, err), sent1) = getDag client plugin dagId sent
      in case dag of
           None \<Rightarrow>
             (health\<lparr>Error := Some (''could not retrieve dag: '' @ dagId @ nl @ fmt_v err),
                     Status := CheckStateCritical\<rparr>, sent1)
         | Some d \<Rightarrow>
             if explicit \<and> IsPaused d then
               (health\<lparr>Error := Some (''DAG is paused and will not process: '' @ dagId),
                       Status := CheckStateWarning\<rparr>, sent1)
             else
               (let ((dagRun, err2), sent2) = getLatestDagRun client plugin dagId sent1;
                    health = health\<lparr>Error := err2\<rparr>
                in case dagRun of
                     Some r \<Rightarrow>
                       if State r = ''failed'' then
                         (health\<lparr>Error := Some (''DAG failed its last execution: '' @ dagId),
                                 Status := CheckStateCritical\<rparr>, sent2)
                       else (health, sent2)
                   | None \<Rightarrow> (health, sent2)))"

fun checkDags_loop ::
  "Client \<Rightarrow> Config \<Rightarrow> bool \<Rightarrow> string list \<Rightarrow> Health list \<Rightarrow> Request list
     \<Rightarrow> Health list \<times> Request list" where
  "checkDags_loop client plugin explicit [] result sent = (result, sent)"
| "checkDags_loop client plugin explicit (dagId # rest) result sent =
     (let (health, sent1) = checkDag client plugin explicit dagId sent
      in checkDags_loop client plugin explicit rest (result @ [health]) sent1)"

definition checkDags ::
  "Client \<Rightarrow> Config \<Rightarrow> string list \<Rightarrow> bool \<Rightarrow> Request list \<Rightarrow> Health list \<times> Request list" where
  "checkDags client plugin dags explicit sent = checkDags_loop client plugin explicit dags [] sent"

section \<open>The check\<close>

text \<open>
  \<^verbatim>\<open>make([]string, n)\<close> with a length known only at run time, on a 64-bit platform: \<^verbatim>\<open>int\<close>
  and \<^verbatim>\<open>uintptr\<close> have 64 bits and a string header takes 16 bytes. As \<^verbatim>\<open>runtime.makeslice\<close>
  does, a negative length, a size \<open>16 * n\<close> that overflows \<^verbatim>\<open>uintptr\<close> and a size above
  \<^verbatim>\<open>maxAlloc\<close> panic with "makeslice: len out of range"; a size that the heap cannot provide
  ends the program with the fatal error "out of memory"; otherwise the result is a slice of
  \<open>n\<close> empty strings.
\<close>

definition make_strings :: "Runtime \<Rightarrow> int \<Rightarrow> go_panic + string list" where
  "make_strings rt n =
     (if n < 0 \<or> 2 ^ 64 \<le> 16 * n \<or> maxAlloc rt < 16 * n then Inl MakesliceLenOutOfRange
      else if heapFree rt < 16 * n then Inl OutOfMemory
      else Inr (replicate (nat n) []))"

text \<open>
  The loop \<^verbatim>\<open>for i, d := range dagList.Dags { dags[i] = d.DagId }\<close>, started at index
  \<open>i\<close>; an index beyond the slice panics.
\<close>

fun fill_dags :: "Dag list \<Rightarrow> nat \<Rightarrow> string list \<Rightarrow> go_panic + string list" where
  "fill_dags [] i dags = Inr dags"
| "fill_dags (d # ds) i dags =
     (if i < length dags then fill_dags ds (Suc i) (dags[i := Dag.DagId d])
      else Inl IndexOutOfRange)"

text \<open>
  The construction of \<^verbatim>\<open>dags\<close> from the decoded listing in \<^verbatim>\<open>executeCheck\<close>: the slice is
  made with \<^verbatim>\<open>TotalEntries\<close> elements and then filled from \<^verbatim>\<open>Dags\<close>. The limits of the
  runtime are passed along to the allocation.
\<close>

definition discovered_dags :: "Runtime \<Rightarrow> DagList \<Rightarrow> go_panic + string list" where
  "discovered_dags rt dagList =
     (case make_strings rt (DagList.TotalEntries dagList) of
        Inl p \<Rightarrow> Inl p
      | Inr dags \<Rightarrow> fill_dags (DagList.Dags dagList) 0 dags)"

text \<open>
  The first part of \<^verbatim>\<open>executeCheck\<close>, up to the call of \<^verbatim>\<open>checkDags\<close>: it yields a panic,
  or the early return of the function (\<open>Inl\<close>), or the slice \<^verbatim>\<open>dags\<close> and the flag
  \<^verbatim>\<open>explicit\<close> (\<open>Inr\<close>), with the requests sent.
\<close>

definition executeCheck_dags ::
  "Runtime \<Rightarrow> Client \<Rightarrow> Config \<Rightarrow> Request list
     \<Rightarrow> go_panic + ((int \<times> error option) + (string list \<times> bool)) \<times> Request list" where
  "executeCheck_dags rt client plugin sent =
     (let dags = Config.Dags plugin
      in if length dags = 0 then
           (case getAllDags client plugin sent of
              ((dagList, Some err), sent1) \<Rightarrow>
                Inr (Inl (CheckStateCritical,
                          Some (''could not retrieve DAGs: '' @ fmt_v (Some err))), sent1)
            | ((None, None), sent1) \<Rightarrow> Inl NilDereference
            | ((Some dl, None), sent1) \<Rightarrow>
                (case discovered_dags rt dl of
                   Inl p \<Rightarrow> Inl p
                 | Inr dags1 \<Rightarrow> Inr (Inr (dags1, False), sent1)))
         else Inr (Inr (dags, True), sent))"

text \<open>
  The counters and the standard output of the second part of \<^verbatim>\<open>executeCheck\<close>. Each
  element of \<open>stdout\<close> is the text of one \<^verbatim>\<open>fmt.Printf\<close> call. The counters are Go
  \<^verbatim>\<open>int\<close>s; each is bounded by the length of the slice, which is below \<open>2^63\<close>, so they
  never wrap and are modelled as \<^typ>\<open>int\<close>.
\<close>

record Tally =
  oks :: int
  warnings :: int
  criticals :: int
  unknowns :: int
  found :: bool
  stdout :: "string list"

definition tally_step :: "Health \<Rightarrow> Tally \<Rightarrow> Tally" where
  "tally_step h t =
     (let t1 = t\<lparr>found := True\<rparr>;
          t2 = (if Status h = CheckStateOK then t1\<lparr>oks := oks t1 + 1\<rparr>
                else if Status h = CheckStateWarning then
                  t1\<lparr>warnings := warnings t1 + 1,
                     stdout := stdout t1 @ [Health.DagId h @ '' WARNING'' @ nl]\<rparr>
                else if Status h = CheckStateCritical then
                  t1\<lparr>criticals := criticals t1 + 1,
                     stdout := stdout t1 @ [Health.DagId h @ '' CRITICAL'' @ nl]\<rparr>
                else if Status h = CheckStateUnknown then
                  t1\<lparr>unknowns := unknowns t1 + 1,
                     stdout := stdout t1 @ [Health.DagId h @ '' UNKNOWN'' @ nl]\<rparr>
                else t1)
      in case Error h of
           None \<Rightarrow> t2
         | Some e \<Rightarrow>
             t2\<lparr>stdout := stdout t2 @
                   [''Error occurred while checking DAG:'' @ nl @ fmt_v (Some e) @ nl]\<rparr>)"

fun tally :: "Health list \<Rightarrow> Tally \<Rightarrow> Tally" where
  "tally [] t = t"
| "tally (h # hs) t = tally hs (tally_step h t)"

text \<open>
  The second part of \<^verbatim>\<open>executeCheck\<close>, from the counters to the return: the returned pair
  and what was printed.
\<close>

definition executeCheck_report :: "Health list \<Rightarrow> (int \<times> error option) \<times> string list" where
  "executeCheck_report health =
     (let t = tally health
                \<lparr>oks = 0, warnings = 0, criticals = 0, unknowns = 0, found = False, stdout = []\<rparr>
      in if criticals t > 0 \<or> unknowns t > 0 then ((CheckStateCritical, None), stdout t)
         else if warnings t > 0 then ((CheckStateWarning, None), stdout t)
         else if found t then
           ((CheckStateOK, None),
            stdout t @ [''All health checks returning OK for loaded DAGs''])
         else ((CheckStateOK, None), stdout t @ [''No DAGS loaded'']))"

text \<open>
  \<^verbatim>\<open>executeCheck\<close>: a panic, or the returned pair, the standard output and the requests sent.
\<close>

definition executeCheck ::
  "Runtime \<Rightarrow> Client \<Rightarrow> Config \<Rightarrow> Request list
     \<Rightarrow> go_panic + ((int \<times> error option) \<times> string list \<times> Request list)" where
  "executeCheck rt client plugin sent =
     (case executeCheck_dags rt client plugin sent of
        Inl p \<Rightarrow> Inl p
      | Inr (Inl ret, sent1) \<Rightarrow> Inr (ret, [], sent1)
      | Inr (Inr (dags, explicit), sent1) \<Rightarrow>
          (let (health, sent2) = checkDags client plugin dags explicit sent1;
               (ret, out) = executeCheck_report health
           in Inr (ret, out, sent2)))"

section \<open>Concrete scenarios\<close>

text \<open>
  Concrete clients and configurations on which the model is evaluated. \<open>fixed_client\<close>
  accepts every request, answers it with a body and decodes every body of a payload type to
  the given result. \<open>demo_runtime\<close> has the allocation bound of linux/amd64 and a heap of
  one gibibyte.
\<close>

definition fixed_client :: "(error + Dag) \<Rightarrow> (error + DagList) \<Rightarrow> (error + DagRunList) \<Rightarrow> Client" where
  "fixed_client dag dagList dagRuns =
     \<lparr>NewRequest_error = (\<lambda>method url. None),
      Do = (\<lambda>sent req. Inr (URL req)),
      Decode_Dag = (\<lambda>body. dag),
      Decode_DagList = (\<lambda>body. dagList),
      Decode_DagRunList = (\<lambda>body. dagRuns)\<rparr>"

definition demo_plugin :: Config where
  "demo_plugin = \<lparr>AirflowApiUrl = ''http://af/'', AirflowUsername = ''u'', AirflowPassword = ''p'',
     Config.Dags = [''etl''], Timeout = 15\<rparr>"

definition demo_runtime :: Runtime where
  "demo_runtime = \<lparr>maxAlloc = 2 ^ 48, heapFree = 2 ^ 30\<rparr>"

definition demo_request :: "string \<Rightarrow> Request" where
  "demo_request url = \<lparr>Method = ''GET'', URL = url, Header = [(''Accept'', ''application/json'')],
     BasicAuth = Some (''u'', ''p'')\<rparr>"

section \<open>The severity ordering of the specification\<close>

text \<open>
  This definition follows the specification's words, not the code: the severities are
  ordered OK < WARNING < CRITICAL, and UNKNOWN stands at the level of CRITICAL. A status that
  is none of the four check states has the lowest level.
\<close>

definition severity_level :: "int \<Rightarrow> nat" where
  "severity_level s =
     (if s = CheckStateCritical \<or> s = CheckStateUnknown then 2
      else if s = CheckStateWarning then 1
      else 0)"

section \<open>Properties of the classifier\<close>

lemmas demo_defs =
  fixed_client_def demo_plugin_def demo_runtime_def demo_request_def getDag_def
  getLatestDagRun_def getAllDags_def NewRequest_def Header_Set_def SetBasicAuth_def
  getAirflowApiUrl_def TrimSuffix_def fmt_v_def nl_def

lemma getDag_error:
  "getDag client plugin dagId sent = ((None, err), sent1) \<Longrightarrow> \<exists>e. err = Some e"
  by (auto simp: getDag_def Let_def split: sum.splits)

lemma getDag_sent:
  "getDag client plugin dagId sent = (r, sent1) \<Longrightarrow>
     sent1 = sent \<or> (\<exists>req. sent1 = sent @ [req] \<and> URL req = getAirflowApiUrl plugin @ ''/dags/'' @ dagId)"
  by (auto simp: getDag_def NewRequest_def Header_Set_def SetBasicAuth_def Let_def
           split: option.splits sum.splits)

lemma getLatestDagRun_error:
  "getLatestDagRun client plugin dagId sent = ((dagRun, Some e), sent1) \<Longrightarrow> dagRun = None"
  by (auto simp: getLatestDagRun_def Let_def split: sum.splits if_splits)

text \<open>
  C1. When the descriptor fetch succeeds and the descriptor is paused: with \<open>explicit\<close>
  true the result is WARNING with the diagnostic "DAG is paused and will not process: id" and
  nothing more is requested; with \<open>explicit\<close> false the paused check is skipped, and the
  result is the one of the latest-run rule alone.
\<close>

theorem paused_flagged_only_when_explicit:
  assumes "getDag client plugin dagId sent = ((Some d, err), sent1)"
    and "IsPaused d"
  shows "checkDag client plugin True dagId sent =
           (\<lparr>Health.DagId = dagId, Status = CheckStateWarning,
             Error = Some (''DAG is paused and will not process: '' @ dagId)\<rparr>, sent1)
       \<and> checkDag client plugin False dagId sent =
           (case getLatestDagRun client plugin dagId sent1 of
              ((dagRun, err2), sent2) \<Rightarrow>
                (if \<exists>r. dagRun = Some r \<and> State r = ''failed''
                 then \<lparr>Health.DagId = dagId, Status = CheckStateCritical,
                        Error = Some (''DAG failed its last execution: '' @ dagId)\<rparr>
                 else \<lparr>Health.DagId = dagId, Status = CheckStateOK, Error = err2\<rparr>, sent2))"
  using assms by (auto simp: checkDag_def Let_def split: prod.splits option.splits)

theorem paused_flagged_only_when_explicit_witness:
  "checkDag (fixed_client (Inr \<lparr>Dag.DagId = ''etl'', IsPaused = True\<rparr>) (Inl ''unused'')
       (Inr \<lparr>DagRuns = [\<lparr>State = ''success''\<rparr>], TotalEntries = 1\<rparr>)) demo_plugin True ''etl'' []
     = (\<lparr>Health.DagId = ''etl'', Status = CheckStateWarning,
         Error = Some ''DAG is paused and will not process: etl''\<rparr>,
        [demo_request ''http://af/api/v1/dags/etl''])
   \<and> checkDag (fixed_client (Inr \<lparr>Dag.DagId = ''etl'', IsPaused = True\<rparr>) (Inl ''unused'')
       (Inr \<lparr>DagRuns = [\<lparr>State = ''success''\<rparr>], TotalEntries = 1\<rparr>)) demo_plugin False ''etl'' []
     = (\<lparr>Health.DagId = ''etl'', Status = CheckStateOK, Error = None\<rparr>,
        [demo_request ''http://af/api/v1/dags/etl'',
         demo_request ''http://af/api/v1/dags/etl/dagRuns?limit=1''])"
proof -
  let ?c = "fixed_client (Inr \<lparr>Dag.DagId = ''etl'', IsPaused = True\<rparr>) (Inl ''unused'')
       (Inr \<lparr>DagRuns = [\<lparr>State = ''success''\<rparr>], TotalEntries = 1\<rparr>)"
  have h1: "getDag ?c demo_plugin ''etl'' [] =
      ((Some \<lparr>Dag.DagId = ''etl'', IsPaused = True\<rparr>, None), [demo_request ''http://af/api/v1/dags/etl''])"
    by (simp add: demo_defs)
  have h2: "IsPaused \<lparr>Dag.DagId = ''etl'', IsPaused = True\<rparr>" by simp
  have h3: "getLatestDagRun ?c demo_plugin ''etl'' [demo_request ''http://af/api/v1/dags/etl''] =
      ((Some \<lparr>State = ''success''\<rparr>, None), [demo_request ''http://af/api/v1/dags/etl'',
         demo_request ''http://af/api/v1/dags/etl/dagRuns?limit=1''])"
    by (simp add: demo_defs)
  show ?thesis
    using paused_flagged_only_when_explicit [OF h1 h2] by (simp add: h3)
qed

text \<open>
  C2, as stated, fails. A client whose descriptor for "etl" is paused and whose latest run of
  "etl" has state "failed": with \<open>explicit\<close> true the classifier stops at the paused rule and
  returns WARNING, never asking for the run.
\<close>

theorem failed_run_counterexample:
  "fst (getLatestDagRun
          (fixed_client (Inr \<lparr>Dag.DagId = ''etl'', IsPaused = True\<rparr>) (Inl ''unused'')
             (Inr \<lparr>DagRuns = [\<lparr>State = ''failed''\<rparr>], TotalEntries = 1\<rparr>))
          demo_plugin ''etl'' [demo_request ''http://af/api/v1/dags/etl''])
     = (Some \<lparr>State = ''failed''\<rparr>, None)
   \<and> checkDag
         (fixed_client (Inr \<lparr>Dag.DagId = ''etl'', IsPaused = True\<rparr>) (Inl ''unused'')
            (Inr \<lparr>DagRuns = [\<lparr>State = ''failed''\<rparr>], TotalEntries = 1\<rparr>))
         demo_plugin True ''etl'' []
     = (\<lparr>Health.DagId = ''etl'', Status = CheckStateWarning,
         Error = Some ''DAG is paused and will not process: etl''\<rparr>,
        [demo_request ''http://af/api/v1/dags/etl''])
   \<and> CheckStateWarning \<noteq> CheckStateCritical"
  by (simp add: checkDag_def demo_defs CheckStateWarning_def CheckStateCritical_def)

text \<open>
  C2, amended. When the descriptor fetch succeeds and the paused rule does not apply (the flag
  \<open>explicit\<close> is false, or the descriptor is not paused), a latest run record with state
  "failed" gives CRITICAL with the diagnostic "DAG failed its last execution: id", whatever
  error value came with the record.
\<close>

theorem failed_run_is_critical:
  assumes "getDag client plugin dagId sent = ((Some d, err), sent1)"
    and "\<not> (explicit \<and> IsPaused d)"
    and "getLatestDagRun client plugin dagId sent1 = ((Some r, err2), sent2)"
    and "State r = ''failed''"
  shows "checkDag client plugin explicit dagId sent =
           (\<lparr>Health.DagId = dagId, Status = CheckStateCritical,
             Error = Some (''DAG failed its last execution: '' @ dagId)\<rparr>, sent2)"
  using assms by (auto simp: checkDag_def Let_def)

theorem failed_run_is_critical_witness:
  "checkDag
     (fixed_client (Inr \<lparr>Dag.DagId = ''etl'', IsPaused = True\<rparr>) (Inl ''unused'')
        (Inr \<lparr>DagRuns = [\<lparr>State = ''failed''\<rparr>], TotalEntries = 1\<rparr>))
     demo_plugin False ''etl'' []
   = (\<lparr>Health.DagId = ''etl'', Status = CheckStateCritical,
       Error = Some ''DAG failed its last execution: etl''\<rparr>,
      [demo_request ''http://af/api/v1/dags/etl'',
       demo_request ''http://af/api/v1/dags/etl/dagRuns?limit=1''])"
proof -
  let ?c = "fixed_client (Inr \<lparr>Dag.DagId = ''etl'', IsPaused = True\<rparr>) (Inl ''unused'')
        (Inr \<lparr>DagRuns = [\<lparr>State = ''failed''\<rparr>], TotalEntries = 1\<rparr>)"
  have h1: "getDag ?c demo_plugin ''etl'' [] =
      ((Some \<lparr>Dag.DagId = ''etl'', IsPaused = True\<rparr>, None), [demo_request ''http://af/api/v1/dags/etl''])"
    by (simp add: demo_defs)
  have h2: "\<not> (False \<and> IsPaused \<lparr>Dag.DagId = ''etl'', IsPaused = True\<rparr>)" by simp
  have h3: "getLatestDagRun ?c demo_plugin ''etl'' [demo_request ''http://af/api/v1/dags/etl''] =
      ((Some \<lparr>State = ''failed''\<rparr>, None), [demo_request ''http://af/api/v1/dags/etl'',
         demo_request ''http://af/api/v1/dags/etl/dagRuns?limit=1''])"
    by (simp add: demo_defs)
  have h4: "State \<lparr>State = ''failed''\<rparr> = ''failed''" by simp
  show ?thesis
    using failed_run_is_critical [OF h1 h2 h3 h4] by simp
qed

text \<open>
  C5. When the descriptor fetch succeeds, the paused rule does not apply and the latest-run
  fetch returns an error, that error is the diagnostic and the status stays OK; a failing
  fetch never comes with a run record, so the "failed" rule cannot apply.
\<close>

theorem run_fetch_error_keeps_ok:
  assumes "getDag client plugin dagId sent = ((Some d, err), sent1)"
    and "\<not> (explicit \<and> IsPaused d)"
    and "getLatestDagRun client plugin dagId sent1 = ((dagRun, Some e), sent2)"
  shows "dagRun = None
       \<and> checkDag client plugin explicit dagId sent =
           (\<lparr>Health.DagId = dagId, Status = CheckStateOK, Error = Some e\<rparr>, sent2)"
proof -
  have "dagRun = None"
    using assms(3) by (rule getLatestDagRun_error)
  with assms show ?thesis
    by (auto simp: checkDag_def Let_def)
qed

theorem run_fetch_error_keeps_ok_witness:
  "checkDag
     (fixed_client (Inr \<lparr>Dag.DagId = ''etl'', IsPaused = False\<rparr>) (Inl ''unused'')
        (Inl ''unexpected EOF''))
     demo_plugin True ''etl'' []
   = (\<lparr>Health.DagId = ''etl'', Status = CheckStateOK,
       Error = Some ''failed to decode dag run list response: unexpected EOF''\<rparr>,
      [demo_request ''http://af/api/v1/dags/etl'',
       demo_request ''http://af/api/v1/dags/etl/dagRuns?limit=1''])"
proof -
  let ?c = "fixed_client (Inr \<lparr>Dag.DagId = ''etl'', IsPaused = False\<rparr>) (Inl ''unused'')
        (Inl ''unexpected EOF'')"
  have h1: "getDag ?c demo_plugin ''etl'' [] =
      ((Some \<lparr>Dag.DagId = ''etl'', IsPaused = False\<rparr>, None), [demo_request ''http://af/api/v1/dags/etl''])"
    by (simp add: demo_defs)
  have h2: "\<not> (True \<and> IsPaused \<lparr>Dag.DagId = ''etl'', IsPaused = False\<rparr>)" by simp
  have h3: "getLatestDagRun ?c demo_plugin ''etl'' [demo_request ''http://af/api/v1/dags/etl''] =
      ((None, Some ''failed to decode dag run list response: unexpected EOF''),
       [demo_request ''http://af/api/v1/dags/etl'',
        demo_request ''http://af/api/v1/dags/etl/dagRuns?limit=1''])"
    by (simp add: demo_defs)
  show ?thesis
    using run_fetch_error_keeps_ok [OF h1 h2 h3] by simp
qed

text \<open>
  C6. When the descriptor fetch yields no descriptor, it yields an error, and the result is
  CRITICAL with the diagnostic "could not retrieve dag: id", a newline and that error, for
  either value of \<open>explicit\<close>. The requests sent are those of the descriptor fetch alone: at
  most the one descriptor request, and no run request.
\<close>

theorem descriptor_failure_is_critical:
  assumes "getDag client plugin dagId sent = ((None, err), sent1)"
  shows "\<exists>e. err = Some e
           \<and> checkDag client plugin explicit dagId sent =
               (\<lparr>Health.DagId = dagId, Status = CheckStateCritical,
                 Error = Some (''could not retrieve dag: '' @ dagId @ nl @ e)\<rparr>, sent1)
           \<and> (sent1 = sent \<or>
                (\<exists>req. sent1 = sent @ [req] \<and>
                       URL req = getAirflowApiUrl plugin @ ''/dags/'' @ dagId))"
proof -
  obtain e where e: "err = Some e"
    using getDag_error [OF assms] by blast
  have "checkDag client plugin explicit dagId sent =
          (\<lparr>Health.DagId = dagId, Status = CheckStateCritical,
            Error = Some (''could not retrieve dag: '' @ dagId @ nl @ e)\<rparr>, sent1)"
    using assms e by (simp add: checkDag_def fmt_v_def)
  moreover have "sent1 = sent \<or>
      (\<exists>req. sent1 = sent @ [req] \<and> URL req = getAirflowApiUrl plugin @ ''/dags/'' @ dagId)"
    using assms by (rule getDag_sent)
  ultimately show ?thesis
    using e by blast
qed

theorem descriptor_failure_is_critical_witness:
  "checkDag
     (fixed_client (Inl ''unexpected EOF'') (Inl ''unused'')
        (Inr \<lparr>DagRuns = [\<lparr>State = ''failed''\<rparr>], TotalEntries = 1\<rparr>))
     demo_plugin True ''etl'' []
   = (\<lparr>Health.DagId = ''etl'', Status = CheckStateCritical,
       Error = Some (''could not retrieve dag: etl'' @ nl @
                     ''failed to decode dag response: unexpected EOF'')\<rparr>,
      [demo_request ''http://af/api/v1/dags/etl''])"
proof -
  let ?c = "fixed_client (Inl ''unexpected EOF'') (Inl ''unused'')
        (Inr \<lparr>DagRuns = [\<lparr>State = ''failed''\<rparr>], TotalEntries = 1\<rparr>)"
  have h1: "getDag ?c demo_plugin ''etl'' [] =
      ((None, Some ''failed to decode dag response: unexpected EOF''),
       [demo_request ''http://af/api/v1/dags/etl''])"
    by (simp add: demo_defs)
  show ?thesis
    using descriptor_failure_is_critical [OF h1, of True] by simp
qed

text \<open>
  C9. When the descriptor fetch succeeds with an unpaused descriptor and the latest-run fetch
  succeeds with no record, the result is OK with no diagnostic, for either value of
  \<open>explicit\<close>.
\<close>

theorem never_run_unpaused_is_ok:
  assumes "getDag client plugin dagId sent = ((Some d, err), sent1)"
    and "\<not> IsPaused d"
    and "getLatestDagRun client plugin dagId sent1 = ((None, None), sent2)"
  shows "checkDag client plugin explicit dagId sent =
           (\<lparr>Health.DagId = dagId, Status = CheckStateOK, Error = None\<rparr>, sent2)"
  using assms by (simp add: checkDag_def)

theorem never_run_unpaused_is_ok_witness:
  "checkDag
     (fixed_client (Inr \<lparr>Dag.DagId = ''etl'', IsPaused = False\<rparr>) (Inl ''unused'')
        (Inr \<lparr>DagRuns = [], TotalEntries = 0\<rparr>))
     demo_plugin True ''etl'' []
   = (\<lparr>Health.DagId = ''etl'', Status = CheckStateOK, Error = None\<rparr>,
      [demo_request ''http://af/api/v1/dags/etl'',
       demo_request ''http://af/api/v1/dags/etl/dagRuns?limit=1''])
   \<and> checkDag
     (fixed_client (Inr \<lparr>Dag.DagId = ''etl'', IsPaused = False\<rparr>) (Inl ''unused'')
        (Inr \<lparr>DagRuns = [], TotalEntries = 0\<rparr>))
     demo_plugin False ''etl'' []
   = (\<lparr>Health.DagId = ''etl'', Status = CheckStateOK, Error = None\<rparr>,
      [demo_request ''http://af/api/v1/dags/etl'',
       demo_request ''http://af/api/v1/dags/etl/dagRuns?limit=1''])"
proof -
  let ?c = "fixed_client (Inr \<lparr>Dag.DagId = ''etl'', IsPaused = False\<rparr>) (Inl ''unused'')
        (Inr \<lparr>DagRuns = [], TotalEntries = 0\<rparr>)"
  have h1: "getDag ?c demo_plugin ''etl'' [] =
      ((Some \<lparr>Dag.DagId = ''etl'', IsPaused = False\<rparr>, None), [demo_request ''http://af/api/v1/dags/etl''])"
    by (simp add: demo_defs)
  have h2: "\<not> IsPaused \<lparr>Dag.DagId = ''etl'', IsPaused = False\<rparr>" by simp
  have h3: "getLatestDagRun ?c demo_plugin ''etl'' [demo_request ''http://af/api/v1/dags/etl''] =
      ((None, None),
       [demo_request ''http://af/api/v1/dags/etl'',
        demo_request ''http://af/api/v1/dags/etl/dagRuns?limit=1''])"
    by (simp add: demo_defs)
  show ?thesis
    using never_run_unpaused_is_ok [OF h1 h2 h3, of True]
      never_run_unpaused_is_ok [OF h1 h2 h3, of False] by simp
qed

section \<open>Properties of the loop over the working set\<close>

lemma checkDag_DagId:
  "Health.DagId (fst (checkDag client plugin explicit dagId sent)) = dagId"
  by (simp add: checkDag_def Let_def split: prod.splits option.splits)

lemma checkDags_loop_result:
  "checkDags_loop client plugin explicit dags result sent =
     (result @ fst (checkDags_loop client plugin explicit dags [] sent),
      snd (checkDags_loop client plugin explicit dags [] sent))"
proof (induction dags arbitrary: result sent)
  case Nil
  show ?case by simp
next
  case (Cons dagId rest)
  obtain health sent1 where step: "checkDag client plugin explicit dagId sent = (health, sent1)"
    by (cases "checkDag client plugin explicit dagId sent")
  have "checkDags_loop client plugin explicit (dagId # rest) result sent =
          checkDags_loop client plugin explicit rest (result @ [health]) sent1"
    by (simp add: step)
  also have "\<dots> = ((result @ [health]) @ fst (checkDags_loop client plugin explicit rest [] sent1),
                    snd (checkDags_loop client plugin explicit rest [] sent1))"
    by (rule Cons.IH)
  finally have lhs: "checkDags_loop client plugin explicit (dagId # rest) result sent =
      (result @ health # fst (checkDags_loop client plugin explicit rest [] sent1),
       snd (checkDags_loop client plugin explicit rest [] sent1))"
    by simp
  have "checkDags_loop client plugin explicit (dagId # rest) [] sent =
          checkDags_loop client plugin explicit rest [health] sent1"
    by (simp add: step)
  also have "\<dots> = ([health] @ fst (checkDags_loop client plugin explicit rest [] sent1),
                    snd (checkDags_loop client plugin explicit rest [] sent1))"
    by (rule Cons.IH)
  finally have rhs: "checkDags_loop client plugin explicit (dagId # rest) [] sent =
      (health # fst (checkDags_loop client plugin explicit rest [] sent1),
       snd (checkDags_loop client plugin explicit rest [] sent1))"
    by simp
  show ?case
    by (simp only: lhs rhs fst_conv snd_conv)
qed

lemma checkDags_Nil:
  "checkDags client plugin [] explicit sent = ([], sent)"
  by (simp add: checkDags_def)

lemma checkDags_Cons:
  "checkDags client plugin (dagId # rest) explicit sent =
     (case checkDag client plugin explicit dagId sent of
        (health, sent1) \<Rightarrow>
          (case checkDags client plugin rest explicit sent1 of
             (healths, sent2) \<Rightarrow> (health # healths, sent2)))"
proof -
  obtain health sent1 where step: "checkDag client plugin explicit dagId sent = (health, sent1)"
    by (cases "checkDag client plugin explicit dagId sent")
  have "checkDags client plugin (dagId # rest) explicit sent =
          checkDags_loop client plugin explicit rest [health] sent1"
    by (simp add: checkDags_def step)
  also have "\<dots> = ([health] @ fst (checkDags client plugin rest explicit sent1),
                    snd (checkDags client plugin rest explicit sent1))"
    unfolding checkDags_def by (rule checkDags_loop_result)
  finally show ?thesis
    by (simp add: step split: prod.splits)
qed

lemma checkDags_append:
  "checkDags client plugin (dags @ dags2) explicit sent =
     (case checkDags client plugin dags explicit sent of
        (healths, sent1) \<Rightarrow>
          (case checkDags client plugin dags2 explicit sent1 of
             (healths2, sent2) \<Rightarrow> (healths @ healths2, sent2)))"
  by (induction dags arbitrary: sent)
     (simp_all add: checkDags_Nil checkDags_Cons split: prod.splits)

lemma checkDags_ids:
  "map Health.DagId (fst (checkDags client plugin dags explicit sent)) = dags"
proof (induction dags arbitrary: sent)
  case Nil
  show ?case by (simp add: checkDags_Nil)
next
  case (Cons dagId rest)
  obtain health sent1 where step: "checkDag client plugin explicit dagId sent = (health, sent1)"
    by (cases "checkDag client plugin explicit dagId sent")
  have "Health.DagId health = dagId"
    using checkDag_DagId [of client plugin explicit dagId sent] by (simp add: step)
  then show ?case
    using Cons.IH [of sent1] by (auto simp: checkDags_Cons step split: prod.splits)
qed

text \<open>
  C3. The classifier run over a list of identifiers yields one result per identifier: the
  result list has the length of the input and its identifiers, in order, are the input list.
  The identifiers are classified one after the other in input order: the run over a list
  extended by one identifier is the run over the list, followed by the classification of the
  new identifier in the state that run leaves, with its result appended.
\<close>

theorem one_result_per_identifier_in_order:
  "length (fst (checkDags client plugin dags explicit sent)) = length dags
   \<and> map Health.DagId (fst (checkDags client plugin dags explicit sent)) = dags
   \<and> checkDags client plugin [] explicit sent = ([], sent)
   \<and> checkDags client plugin (dags @ [dagId]) explicit sent =
       (case checkDags client plugin dags explicit sent of
          (healths, sent1) \<Rightarrow>
            (case checkDag client plugin explicit dagId sent1 of
               (health, sent2) \<Rightarrow> (healths @ [health], sent2)))"
proof -
  have ids: "map Health.DagId (fst (checkDags client plugin dags explicit sent)) = dags"
    by (rule checkDags_ids)
  have "length (map Health.DagId (fst (checkDags client plugin dags explicit sent))) = length dags"
    by (simp only: ids)
  then have len: "length (fst (checkDags client plugin dags explicit sent)) = length dags"
    by simp
  have snoc: "checkDags client plugin (dags @ [dagId]) explicit sent =
       (case checkDags client plugin dags explicit sent of
          (healths, sent1) \<Rightarrow>
            (case checkDag client plugin explicit dagId sent1 of
               (health, sent2) \<Rightarrow> (healths @ [health], sent2)))"
    by (simp add: checkDags_append checkDags_Cons checkDags_Nil split: prod.splits)
  show ?thesis
    using len ids snoc checkDags_Nil by blast
qed

section \<open>Properties of the aggregation\<close>

lemmas CheckState_defs =
  CheckStateOK_def CheckStateWarning_def CheckStateCritical_def CheckStateUnknown_def

lemma tally_criticals:
  "criticals (tally hs t) =
     criticals t + int (length (filter (\<lambda>h. Status h = CheckStateCritical) hs))"
  by (induction hs arbitrary: t)
     (simp_all add: tally_step_def Let_def CheckState_defs split: option.splits)

lemma tally_unknowns:
  "unknowns (tally hs t) =
     unknowns t + int (length (filter (\<lambda>h. Status h = CheckStateUnknown) hs))"
  by (induction hs arbitrary: t)
     (simp_all add: tally_step_def Let_def CheckState_defs split: option.splits)

lemma tally_warnings:
  "warnings (tally hs t) =
     warnings t + int (length (filter (\<lambda>h. Status h = CheckStateWarning) hs))"
  by (induction hs arbitrary: t)
     (simp_all add: tally_step_def Let_def CheckState_defs split: option.splits)

lemma filter_positive:
  "0 < int (length (filter P hs)) \<longleftrightarrow> (\<exists>h\<in>set hs. P h)"
  by (induction hs) auto

lemma report_status:
  "fst (fst (executeCheck_report health)) =
     (if \<exists>h\<in>set health. Status h = CheckStateCritical \<or> Status h = CheckStateUnknown
      then CheckStateCritical
      else if \<exists>h\<in>set health. Status h = CheckStateWarning then CheckStateWarning
      else CheckStateOK)"
proof -
  let ?t = "tally health
      \<lparr>oks = 0, warnings = 0, criticals = 0, unknowns = 0, found = False, stdout = []\<rparr>"
  have c: "0 < criticals ?t \<longleftrightarrow> (\<exists>h\<in>set health. Status h = CheckStateCritical)"
    by (simp add: tally_criticals filter_positive del: of_nat_0_less_iff)
  have u: "0 < unknowns ?t \<longleftrightarrow> (\<exists>h\<in>set health. Status h = CheckStateUnknown)"
    by (simp add: tally_unknowns filter_positive del: of_nat_0_less_iff)
  have w: "0 < warnings ?t \<longleftrightarrow> (\<exists>h\<in>set health. Status h = CheckStateWarning)"
    by (simp add: tally_warnings filter_positive del: of_nat_0_less_iff)
  show ?thesis
    unfolding executeCheck_report_def Let_def using c u w by auto
qed

lemma report_error:
  "snd (fst (executeCheck_report health)) = None"
  by (simp add: executeCheck_report_def Let_def)

lemma severity_level_2:
  "severity_level s = 2 \<longleftrightarrow> s = CheckStateCritical \<or> s = CheckStateUnknown"
  by (simp add: severity_level_def)

lemma severity_level_1:
  "severity_level s = 1 \<longleftrightarrow> s = CheckStateWarning"
  by (simp add: severity_level_def CheckState_defs)

lemma severity_level_le: "severity_level s \<le> 2"
  by (simp add: severity_level_def)

lemma report_level:
  "severity_level (fst (fst (executeCheck_report health))) =
     Max (insert 0 ((\<lambda>h. severity_level (Status h)) ` set health))"
proof -
  let ?S = "insert 0 ((\<lambda>h. severity_level (Status h)) ` set health)"
  have fin: "finite ?S" by simp
  consider
      (crit) "\<exists>h\<in>set health. Status h = CheckStateCritical \<or> Status h = CheckStateUnknown"
    | (warn) "\<not> (\<exists>h\<in>set health. Status h = CheckStateCritical \<or> Status h = CheckStateUnknown)"
             "\<exists>h\<in>set health. Status h = CheckStateWarning"
    | (ok) "\<not> (\<exists>h\<in>set health. Status h = CheckStateCritical \<or> Status h = CheckStateUnknown)"
           "\<not> (\<exists>h\<in>set health. Status h = CheckStateWarning)"
    by blast
  then show ?thesis
  proof cases
    case crit
    then obtain h where h: "h \<in> set health" "severity_level (Status h) = 2"
      using severity_level_2 by blast
    have "severity_level (Status h) \<in> ?S"
      using h(1) by blast
    then have mem: "2 \<in> ?S"
      by (simp only: h(2))
    have ub: "y \<le> 2" if "y \<in> ?S" for y
      using that severity_level_le by auto
    have "Max ?S = 2"
      using fin ub mem by (rule Max_eqI)
    moreover have "fst (fst (executeCheck_report health)) = CheckStateCritical"
      using crit by (simp only: report_status if_True)
    ultimately show ?thesis
      by (simp add: severity_level_def)
  next
    case warn
    then obtain h where h: "h \<in> set health" "severity_level (Status h) = 1"
      using severity_level_1 by blast
    have "severity_level (Status h) \<in> ?S"
      using h(1) by blast
    then have mem: "1 \<in> ?S"
      by (simp only: h(2))
    have ub: "y \<le> 1" if "y \<in> ?S" for y
    proof -
      from that consider "y = 0" | g where "g \<in> set health" "y = severity_level (Status g)"
        by blast
      then show ?thesis
      proof cases
        case 1
        then show ?thesis by simp
      next
        case 2
        have "severity_level (Status g) \<noteq> 2"
          using warn(1) 2(1) severity_level_2 by blast
        moreover have "severity_level (Status g) \<le> 2"
          by (rule severity_level_le)
        ultimately show ?thesis
          using 2(2) by linarith
      qed
    qed
    have "Max ?S = 1"
      using fin ub mem by (rule Max_eqI)
    moreover have "fst (fst (executeCheck_report health)) = CheckStateWarning"
      using warn by (simp only: report_status if_True if_False)
    ultimately show ?thesis
      by (simp add: severity_level_def CheckState_defs)
  next
    case ok
    have ub: "y \<le> 0" if "y \<in> ?S" for y
    proof -
      from that consider "y = 0" | g where "g \<in> set health" "y = severity_level (Status g)"
        by blast
      then show ?thesis
      proof cases
        case 1
        then show ?thesis by simp
      next
        case 2
        have "Status g \<noteq> CheckStateCritical" "Status g \<noteq> CheckStateUnknown"
          "Status g \<noteq> CheckStateWarning"
          using ok 2(1) by blast+
        then show ?thesis
          using 2(2) by (simp add: severity_level_def)
      qed
    qed
    have mem: "0 \<in> ?S" by simp
    have "Max ?S = 0"
      using fin ub mem by (rule Max_eqI)
    moreover have "fst (fst (executeCheck_report health)) = CheckStateOK"
      using ok by (simp only: report_status if_False)
    ultimately show ?thesis
      by (simp add: severity_level_def CheckState_defs)
  qed
qed

text \<open>
  C4. For every list of results, the status returned by the aggregation is CRITICAL if some
  result is CRITICAL or UNKNOWN, else WARNING if some result is WARNING, else OK, and the
  returned error is nil. Under the ordering OK < WARNING < CRITICAL with UNKNOWN at the level
  of CRITICAL, its level is the maximum of the levels of the results (the level of OK for the
  empty list).
\<close>

theorem overall_severity_is_worst:
  "fst (fst (executeCheck_report health)) =
     (if \<exists>h\<in>set health. Status h = CheckStateCritical \<or> Status h = CheckStateUnknown
      then CheckStateCritical
      else if \<exists>h\<in>set health. Status h = CheckStateWarning then CheckStateWarning
      else CheckStateOK)
   \<and> snd (fst (executeCheck_report health)) = None
   \<and> severity_level (fst (fst (executeCheck_report health))) =
       Max (insert 0 ((\<lambda>h. severity_level (Status h)) ` set health))"
  using report_status [of health] report_error [of health] report_level [of health]
  by (intro conjI)

section \<open>Properties of the discovered working set\<close>

lemma fill_dags_result:
  assumes "i \<le> length dags"
  shows "fill_dags ds i dags =
     (if i + length ds \<le> length dags
      then Inr (take i dags @ map Dag.DagId ds @ drop (i + length ds) dags)
      else Inl IndexOutOfRange)"
  using assms
proof (induction ds arbitrary: i dags)
  case Nil
  then show ?case by simp
next
  case (Cons d ds)
  show ?case
  proof (cases "i < length dags")
    case False
    then show ?thesis by simp
  next
    case True
    have t: "take (Suc i) (dags[i := Dag.DagId d]) = take i dags @ [Dag.DagId d]"
      using True by (simp add: take_Suc_conv_app_nth)
    have le: "Suc i \<le> length (dags[i := Dag.DagId d])"
      using True by simp
    have "fill_dags (d # ds) i dags = fill_dags ds (Suc i) (dags[i := Dag.DagId d])"
      using True by simp
    also have "\<dots> =
        (if Suc i + length ds \<le> length (dags[i := Dag.DagId d])
         then Inr (take (Suc i) (dags[i := Dag.DagId d]) @ map Dag.DagId ds @
                   drop (Suc i + length ds) (dags[i := Dag.DagId d]))
         else Inl IndexOutOfRange)"
      using le by (rule Cons.IH)
    also have "\<dots> =
        (if i + length (d # ds) \<le> length dags
         then Inr (take i dags @ map Dag.DagId (d # ds) @ drop (i + length (d # ds)) dags)
         else Inl IndexOutOfRange)"
      by (simp add: t)
    finally show ?thesis .
  qed
qed

lemma discovered_dags_result:
  "discovered_dags rt dagList =
     (if DagList.TotalEntries dagList < 0 \<or> 2 ^ 64 \<le> 16 * DagList.TotalEntries dagList
         \<or> maxAlloc rt < 16 * DagList.TotalEntries dagList
        then Inl MakesliceLenOutOfRange
      else if heapFree rt < 16 * DagList.TotalEntries dagList then Inl OutOfMemory
      else if DagList.TotalEntries dagList < int (length (DagList.Dags dagList))
        then Inl IndexOutOfRange
      else Inr (map Dag.DagId (DagList.Dags dagList) @
                replicate (nat (DagList.TotalEntries dagList) - length (DagList.Dags dagList)) []))"
proof (cases "make_strings rt (DagList.TotalEntries dagList)")
  case (Inl p)
  then show ?thesis
    by (auto simp: discovered_dags_def make_strings_def split: if_splits)
next
  case (Inr dags)
  then have ok: "\<not> (DagList.TotalEntries dagList < 0
        \<or> 2 ^ 64 \<le> 16 * DagList.TotalEntries dagList
        \<or> maxAlloc rt < 16 * DagList.TotalEntries dagList)"
      "\<not> heapFree rt < 16 * DagList.TotalEntries dagList"
    and dags: "dags = replicate (nat (DagList.TotalEntries dagList)) []"
    by (auto simp: make_strings_def split: if_splits)
  have "discovered_dags rt dagList =
      fill_dags (DagList.Dags dagList) 0 (replicate (nat (DagList.TotalEntries dagList)) [])"
    using Inr dags by (simp add: discovered_dags_def)
  also have "\<dots> =
      (if length (DagList.Dags dagList) \<le> nat (DagList.TotalEntries dagList)
       then Inr (map Dag.DagId (DagList.Dags dagList) @
                 replicate (nat (DagList.TotalEntries dagList) - length (DagList.Dags dagList)) [])
       else Inl IndexOutOfRange)"
    by (simp add: fill_dags_result)
  also have "\<dots> =
      (if DagList.TotalEntries dagList < int (length (DagList.Dags dagList))
       then Inl IndexOutOfRange
       else Inr (map Dag.DagId (DagList.Dags dagList) @
                 replicate (nat (DagList.TotalEntries dagList) - length (DagList.Dags dagList)) []))"
    using ok(1) by (auto simp: not_less)
  finally show ?thesis
    using ok by (simp only: if_False)
qed

text \<open>
  C10, as stated, fails, on a runtime with \<open>maxAlloc = 2^48\<close>. For the listing with no dags
  and \<open>total_entries = -1\<close>, \<open>total_entries\<close> is smaller than the number of listed dags, yet
  the fill step indexes nothing: the allocation of the slice panics before the fill step is
  reached. For the listing with no dags and \<open>total_entries = 2^62\<close>, \<open>total_entries\<close> is
  greater than the number of listed dags, yet there is no working set with trailing empty
  strings: the allocation panics as well.
\<close>

theorem discovered_dags_counterexample:
  "DagList.TotalEntries \<lparr>DagList.Dags = [], DagList.TotalEntries = - 1\<rparr>
     < int (length (DagList.Dags \<lparr>DagList.Dags = [], DagList.TotalEntries = - 1\<rparr>))
   \<and> discovered_dags demo_runtime \<lparr>DagList.Dags = [], DagList.TotalEntries = - 1\<rparr>
       = Inl MakesliceLenOutOfRange
   \<and> discovered_dags demo_runtime \<lparr>DagList.Dags = [], DagList.TotalEntries = - 1\<rparr>
       \<noteq> Inl IndexOutOfRange
   \<and> int (length (DagList.Dags \<lparr>DagList.Dags = [], DagList.TotalEntries = 2 ^ 62\<rparr>))
       < DagList.TotalEntries \<lparr>DagList.Dags = [], DagList.TotalEntries = 2 ^ 62\<rparr>
   \<and> discovered_dags demo_runtime \<lparr>DagList.Dags = [], DagList.TotalEntries = 2 ^ 62\<rparr>
       = Inl MakesliceLenOutOfRange"
  by (simp add: discovered_dags_def make_strings_def demo_runtime_def)

text \<open>
  C10, amended. The working set is allocated with \<open>total_entries\<close> elements and filled from
  the dag list. The allocation panics when \<open>total_entries\<close> is negative or its 16 bytes per
  element overflow or exceed the runtime's bound, and ends the program when the heap cannot
  provide them. When the allocation succeeds, a \<open>total_entries\<close> below the number of listed
  dags makes the fill step index out of bounds; otherwise the working set is the listed
  identifiers followed by \<open>total_entries\<close> minus the number of listed dags empty strings. The
  working set is exactly the listed identifiers if and only if \<open>total_entries\<close> equals the
  number of listed dags and the allocation succeeds.
\<close>

theorem discovered_dags_total_entries:
  "discovered_dags rt dagList =
     (if DagList.TotalEntries dagList < 0 \<or> 2 ^ 64 \<le> 16 * DagList.TotalEntries dagList
         \<or> maxAlloc rt < 16 * DagList.TotalEntries dagList
        then Inl MakesliceLenOutOfRange
      else if heapFree rt < 16 * DagList.TotalEntries dagList then Inl OutOfMemory
      else if DagList.TotalEntries dagList < int (length (DagList.Dags dagList))
        then Inl IndexOutOfRange
      else Inr (map Dag.DagId (DagList.Dags dagList) @
                replicate (nat (DagList.TotalEntries dagList) - length (DagList.Dags dagList)) []))
   \<and> (discovered_dags rt dagList = Inr (map Dag.DagId (DagList.Dags dagList))
        \<longleftrightarrow> DagList.TotalEntries dagList = int (length (DagList.Dags dagList))
            \<and> 16 * DagList.TotalEntries dagList < 2 ^ 64
            \<and> 16 * DagList.TotalEntries dagList \<le> maxAlloc rt
            \<and> 16 * DagList.TotalEntries dagList \<le> heapFree rt)"
proof -
  have iff: "discovered_dags rt dagList = Inr (map Dag.DagId (DagList.Dags dagList))
        \<longleftrightarrow> DagList.TotalEntries dagList = int (length (DagList.Dags dagList))
            \<and> 16 * DagList.TotalEntries dagList < 2 ^ 64
            \<and> 16 * DagList.TotalEntries dagList \<le> maxAlloc rt
            \<and> 16 * DagList.TotalEntries dagList \<le> heapFree rt"
  proof
    assume eq: "discovered_dags rt dagList = Inr (map Dag.DagId (DagList.Dags dagList))"
    then have alloc: "\<not> (DagList.TotalEntries dagList < 0
          \<or> 2 ^ 64 \<le> 16 * DagList.TotalEntries dagList
          \<or> maxAlloc rt < 16 * DagList.TotalEntries dagList)"
      and heap: "\<not> heapFree rt < 16 * DagList.TotalEntries dagList"
      and ge: "\<not> DagList.TotalEntries dagList < int (length (DagList.Dags dagList))"
      by (auto simp: discovered_dags_result split: if_splits)
    from eq alloc heap ge have "map Dag.DagId (DagList.Dags dagList) @
        replicate (nat (DagList.TotalEntries dagList) - length (DagList.Dags dagList)) [] =
        map Dag.DagId (DagList.Dags dagList)"
      by (simp add: discovered_dags_result)
    then have "nat (DagList.TotalEntries dagList) - length (DagList.Dags dagList) = 0"
      by simp
    with alloc ge have "DagList.TotalEntries dagList = int (length (DagList.Dags dagList))"
      by linarith
    with alloc heap show "DagList.TotalEntries dagList = int (length (DagList.Dags dagList))
            \<and> 16 * DagList.TotalEntries dagList < 2 ^ 64
            \<and> 16 * DagList.TotalEntries dagList \<le> maxAlloc rt
            \<and> 16 * DagList.TotalEntries dagList \<le> heapFree rt"
      by (simp add: not_less not_le)
  next
    assume a: "DagList.TotalEntries dagList = int (length (DagList.Dags dagList))
            \<and> 16 * DagList.TotalEntries dagList < 2 ^ 64
            \<and> 16 * DagList.TotalEntries dagList \<le> maxAlloc rt
            \<and> 16 * DagList.TotalEntries dagList \<le> heapFree rt"
    then have "\<not> (DagList.TotalEntries dagList < 0
          \<or> 2 ^ 64 \<le> 16 * DagList.TotalEntries dagList
          \<or> maxAlloc rt < 16 * DagList.TotalEntries dagList)"
      and "\<not> heapFree rt < 16 * DagList.TotalEntries dagList"
      and "\<not> DagList.TotalEntries dagList < int (length (DagList.Dags dagList))"
      by auto
    then have "discovered_dags rt dagList =
        Inr (map Dag.DagId (DagList.Dags dagList) @
             replicate (nat (DagList.TotalEntries dagList) - length (DagList.Dags dagList)) [])"
      by (simp only: discovered_dags_result if_False)
    with a show "discovered_dags rt dagList = Inr (map Dag.DagId (DagList.Dags dagList))"
      by simp
  qed
  show ?thesis
    using discovered_dags_result [of rt dagList] iff by (intro conjI)
qed

section \<open>Properties of the resolution of the working set\<close>

lemma getLatestDagRun_sent:
  "getLatestDagRun client plugin dagId sent = (r, sent1) \<Longrightarrow>
     sent1 = sent \<or>
     (\<exists>req. sent1 = sent @ [req] \<and>
            URL req = getAirflowApiUrl plugin @ ''/dags/'' @ dagId @ ''/dagRuns?limit=1'')"
  by (auto simp: getLatestDagRun_def NewRequest_def Header_Set_def SetBasicAuth_def Let_def
           split: option.splits sum.splits if_splits)

lemma getAllDags_success_sent:
  "getAllDags client plugin sent = ((Some dl, err), sent1) \<Longrightarrow>
     \<exists>req. sent1 = sent @ [req] \<and> URL req = getAirflowApiUrl plugin @ ''/dags''"
  by (auto simp: getAllDags_def NewRequest_def Header_Set_def SetBasicAuth_def Let_def
           split: option.splits sum.splits)

lemma getDag_not_listing:
  assumes "getDag client plugin dagId sent = (r, sent1)"
  shows "\<exists>new. sent1 = sent @ new \<and> list_all (\<lambda>req. URL req \<noteq> getAirflowApiUrl plugin @ ''/dags'') new"
proof -
  from getDag_sent [OF assms] show ?thesis
  proof
    assume "sent1 = sent"
    then have "sent1 = sent @ [] \<and> list_all (\<lambda>req. URL req \<noteq> getAirflowApiUrl plugin @ ''/dags'') []" by simp
    then show ?thesis by blast
  next
    assume "\<exists>req. sent1 = sent @ [req] \<and> URL req = getAirflowApiUrl plugin @ ''/dags/'' @ dagId"
    then obtain req where "sent1 = sent @ [req]"
      and "URL req = getAirflowApiUrl plugin @ ''/dags/'' @ dagId" by blast
    then have "sent1 = sent @ [req] \<and> list_all (\<lambda>req. URL req \<noteq> getAirflowApiUrl plugin @ ''/dags'') [req]"
      by simp
    then show ?thesis by blast
  qed
qed

lemma getLatestDagRun_not_listing:
  assumes "getLatestDagRun client plugin dagId sent = (r, sent1)"
  shows "\<exists>new. sent1 = sent @ new \<and> list_all (\<lambda>req. URL req \<noteq> getAirflowApiUrl plugin @ ''/dags'') new"
proof -
  from getLatestDagRun_sent [OF assms] show ?thesis
  proof
    assume "sent1 = sent"
    then have "sent1 = sent @ [] \<and> list_all (\<lambda>req. URL req \<noteq> getAirflowApiUrl plugin @ ''/dags'') []" by simp
    then show ?thesis by blast
  next
    assume "\<exists>req. sent1 = sent @ [req] \<and>
      URL req = getAirflowApiUrl plugin @ ''/dags/'' @ dagId @ ''/dagRuns?limit=1''"
    then obtain req where "sent1 = sent @ [req]"
      and "URL req = getAirflowApiUrl plugin @ ''/dags/'' @ dagId @ ''/dagRuns?limit=1''" by blast
    then have "sent1 = sent @ [req] \<and> list_all (\<lambda>req. URL req \<noteq> getAirflowApiUrl plugin @ ''/dags'') [req]"
      by simp
    then show ?thesis by blast
  qed
qed

lemma checkDag_sent_cases:
  "snd (checkDag client plugin explicit dagId sent) = snd (getDag client plugin dagId sent)
   \<or> snd (checkDag client plugin explicit dagId sent) =
       snd (getLatestDagRun client plugin dagId (snd (getDag client plugin dagId sent)))"
  by (auto simp: checkDag_def Let_def split: prod.splits option.splits)

lemma checkDag_not_listing:
  assumes "checkDag client plugin explicit dagId sent = (health, sent2)"
  shows "\<exists>new. sent2 = sent @ new \<and> list_all (\<lambda>req. URL req \<noteq> getAirflowApiUrl plugin @ ''/dags'') new"
proof -
  obtain r sent1 where g: "getDag client plugin dagId sent = (r, sent1)"
    by (cases "getDag client plugin dagId sent")
  obtain new1 where n1: "sent1 = sent @ new1" "list_all (\<lambda>req. URL req \<noteq> getAirflowApiUrl plugin @ ''/dags'') new1"
    using getDag_not_listing [OF g] by blast
  obtain r' sent1' where l: "getLatestDagRun client plugin dagId sent1 = (r', sent1')"
    by (cases "getLatestDagRun client plugin dagId sent1")
  obtain new2 where n2: "sent1' = sent1 @ new2" "list_all (\<lambda>req. URL req \<noteq> getAirflowApiUrl plugin @ ''/dags'') new2"
    using getLatestDagRun_not_listing [OF l] by blast
  from checkDag_sent_cases [of client plugin explicit dagId sent]
  have "sent2 = sent1 \<or> sent2 = sent1'"
    by (simp add: assms g l)
  then show ?thesis
  proof
    assume "sent2 = sent1"
    then show ?thesis using n1 by blast
  next
    assume "sent2 = sent1'"
    then have "sent2 = sent @ (new1 @ new2) \<and> list_all (\<lambda>req. URL req \<noteq> getAirflowApiUrl plugin @ ''/dags'') (new1 @ new2)"
      using n1 n2 by simp
    then show ?thesis by blast
  qed
qed

lemma checkDags_not_listing:
  "checkDags client plugin dags explicit sent = (healths, sent2) \<Longrightarrow>
     \<exists>new. sent2 = sent @ new \<and> list_all (\<lambda>req. URL req \<noteq> getAirflowApiUrl plugin @ ''/dags'') new"
proof (induction dags arbitrary: sent healths sent2)
  case Nil
  then have "sent2 = sent @ [] \<and> list_all (\<lambda>req. URL req \<noteq> getAirflowApiUrl plugin @ ''/dags'') []"
    by (simp add: checkDags_Nil)
  then show ?case by blast
next
  case (Cons dagId rest)
  obtain health sent1 where step: "checkDag client plugin explicit dagId sent = (health, sent1)"
    by (cases "checkDag client plugin explicit dagId sent")
  obtain hs s where tl: "checkDags client plugin rest explicit sent1 = (hs, s)"
    by (cases "checkDags client plugin rest explicit sent1")
  have s: "s = sent2"
    using Cons.prems by (simp add: checkDags_Cons step tl)
  obtain new1 where n1: "sent1 = sent @ new1" "list_all (\<lambda>req. URL req \<noteq> getAirflowApiUrl plugin @ ''/dags'') new1"
    using checkDag_not_listing [OF step] by blast
  obtain new2 where n2: "s = sent1 @ new2" "list_all (\<lambda>req. URL req \<noteq> getAirflowApiUrl plugin @ ''/dags'') new2"
    using Cons.IH [OF tl] by blast
  have "sent2 = sent @ (new1 @ new2) \<and> list_all (\<lambda>req. URL req \<noteq> getAirflowApiUrl plugin @ ''/dags'') (new1 @ new2)"
    using n1 n2 s by simp
  then show ?case by blast
qed

lemma executeCheck_dags_explicit:
  "Config.Dags plugin \<noteq> [] \<Longrightarrow>
     executeCheck_dags rt client plugin sent = Inr (Inr (Config.Dags plugin, True), sent)"
  by (simp add: executeCheck_dags_def Let_def)

lemma executeCheck_dags_discovered:
  assumes "Config.Dags plugin = []"
    and "executeCheck_dags rt client plugin sent = Inr (Inr (dags, explicit), sent1)"
  shows "\<not> explicit \<and>
         (\<exists>dl. getAllDags client plugin sent = ((Some dl, None), sent1) \<and>
               discovered_dags rt dl = Inr dags)"
  using assms
  by (auto simp: executeCheck_dags_def Let_def split: prod.splits option.splits sum.splits)

lemma executeCheck_listing_fails:
  assumes "Config.Dags plugin = []"
    and "getAllDags client plugin sent = ((dagList, Some err), sent1)"
  shows "executeCheck rt client plugin sent =
           Inr ((CheckStateCritical, Some (''could not retrieve DAGs: '' @ err)), [], sent1)"
  using assms
  by (simp add: executeCheck_def executeCheck_dags_def fmt_v_def split: option.splits)

lemma discovered_dags_prefix:
  assumes "discovered_dags rt dl = Inr dags"
  shows "take (length (DagList.Dags dl)) dags = map Dag.DagId (DagList.Dags dl)"
  using assms by (auto simp: discovered_dags_result split: if_splits)


text \<open>
  C7. With a non-empty explicit list, the working set is that list, the flag \<open>explicit\<close> is
  true, resolution sends no request, and none of the requests of the whole check is the listing
  request. With the empty list, a working set that results comes from a successful listing
  call: the flag is false, the working set is built from the decoded listing and starts with
  its identifiers, and the one request sent is the listing request. With the empty list and
  a failing listing call, the check returns CRITICAL with the error
  "could not retrieve DAGs: ...", prints nothing, and sends no request beyond the listing
  call, so that no pipeline is classified.
\<close>

theorem working_set_resolution:
  "(Config.Dags plugin \<noteq> [] \<longrightarrow>
      executeCheck_dags rt client plugin sent = Inr (Inr (Config.Dags plugin, True), sent)
      \<and> (\<exists>health sent2 new.
            checkDags client plugin (Config.Dags plugin) True sent = (health, sent2)
            \<and> executeCheck rt client plugin sent =
                Inr (fst (executeCheck_report health), snd (executeCheck_report health), sent2)
            \<and> sent2 = sent @ new
            \<and> list_all (\<lambda>req. URL req \<noteq> getAirflowApiUrl plugin @ ''/dags'') new))
   \<and> (Config.Dags plugin = []
        \<and> executeCheck_dags rt client plugin sent = Inr (Inr (dags, explicit), sent1) \<longrightarrow>
      \<not> explicit
      \<and> (\<exists>dl. getAllDags client plugin sent = ((Some dl, None), sent1)
               \<and> discovered_dags rt dl = Inr dags
               \<and> take (length (DagList.Dags dl)) dags = map Dag.DagId (DagList.Dags dl))
      \<and> (\<exists>req. sent1 = sent @ [req] \<and> URL req = getAirflowApiUrl plugin @ ''/dags''))
   \<and> (Config.Dags plugin = []
        \<and> getAllDags client plugin sent = ((dagList, Some err), sent3) \<longrightarrow>
      executeCheck rt client plugin sent =
        Inr ((CheckStateCritical, Some (''could not retrieve DAGs: '' @ err)), [], sent3))"
proof (intro conjI impI)
  assume ne: "Config.Dags plugin \<noteq> []"
  show "executeCheck_dags rt client plugin sent = Inr (Inr (Config.Dags plugin, True), sent)"
    using ne by (rule executeCheck_dags_explicit)
  obtain health sent2 where run:
    "checkDags client plugin (Config.Dags plugin) True sent = (health, sent2)"
    by (cases "checkDags client plugin (Config.Dags plugin) True sent")
  obtain new where new: "sent2 = sent @ new"
    "list_all (\<lambda>req. URL req \<noteq> getAirflowApiUrl plugin @ ''/dags'') new"
    using checkDags_not_listing [OF run] by blast
  have "executeCheck rt client plugin sent =
      Inr (fst (executeCheck_report health), snd (executeCheck_report health), sent2)"
    by (simp add: executeCheck_def executeCheck_dags_explicit [OF ne] run split: prod.splits)
  with run new show "\<exists>health sent2 new.
      checkDags client plugin (Config.Dags plugin) True sent = (health, sent2)
      \<and> executeCheck rt client plugin sent =
          Inr (fst (executeCheck_report health), snd (executeCheck_report health), sent2)
      \<and> sent2 = sent @ new
      \<and> list_all (\<lambda>req. URL req \<noteq> getAirflowApiUrl plugin @ ''/dags'') new"
    by blast
next
  assume a: "Config.Dags plugin = []
    \<and> executeCheck_dags rt client plugin sent = Inr (Inr (dags, explicit), sent1)"
  then have d: "\<not> explicit \<and>
         (\<exists>dl. getAllDags client plugin sent = ((Some dl, None), sent1) \<and>
               discovered_dags rt dl = Inr dags)"
    using executeCheck_dags_discovered by blast
  then show "\<not> explicit" by blast
  from d obtain dl where dl: "getAllDags client plugin sent = ((Some dl, None), sent1)"
    "discovered_dags rt dl = Inr dags" by blast
  have "take (length (DagList.Dags dl)) dags = map Dag.DagId (DagList.Dags dl)"
    using dl(2) by (rule discovered_dags_prefix)
  with dl show "\<exists>dl. getAllDags client plugin sent = ((Some dl, None), sent1)
               \<and> discovered_dags rt dl = Inr dags
               \<and> take (length (DagList.Dags dl)) dags = map Dag.DagId (DagList.Dags dl)"
    by blast
  show "\<exists>req. sent1 = sent @ [req] \<and> URL req = getAirflowApiUrl plugin @ ''/dags''"
    using dl(1) by (rule getAllDags_success_sent)
next
  assume "Config.Dags plugin = []
        \<and> getAllDags client plugin sent = ((dagList, Some err), sent3)"
  then show "executeCheck rt client plugin sent =
        Inr ((CheckStateCritical, Some (''could not retrieve DAGs: '' @ err)), [], sent3)"
    using executeCheck_listing_fails by blast
qed

lemmas report_defs = executeCheck_report_def tally_step_def CheckState_defs nl_def fmt_v_def

theorem working_set_resolution_witness:
  "executeCheck demo_runtime
     (fixed_client (Inr \<lparr>Dag.DagId = ''etl'', IsPaused = False\<rparr>) (Inl ''unused'')
        (Inr \<lparr>DagRuns = [\<lparr>State = ''success''\<rparr>], TotalEntries = 1\<rparr>))
     demo_plugin []
   = Inr ((CheckStateOK, None), [''All health checks returning OK for loaded DAGs''],
          [demo_request ''http://af/api/v1/dags/etl'',
           demo_request ''http://af/api/v1/dags/etl/dagRuns?limit=1''])
   \<and> (\<exists>dl. getAllDags
            (fixed_client (Inr \<lparr>Dag.DagId = ''a'', IsPaused = False\<rparr>)
               (Inr \<lparr>DagList.Dags = [\<lparr>Dag.DagId = ''a'', IsPaused = True\<rparr>,
                                     \<lparr>Dag.DagId = ''b'', IsPaused = False\<rparr>],
                     DagList.TotalEntries = 2\<rparr>)
               (Inr \<lparr>DagRuns = [], TotalEntries = 0\<rparr>))
            (demo_plugin\<lparr>Config.Dags := []\<rparr>) []
          = ((Some dl, None), [demo_request ''http://af/api/v1/dags''])
        \<and> discovered_dags demo_runtime dl = Inr [''a'', ''b''])
   \<and> executeCheck demo_runtime
       (fixed_client (Inr \<lparr>Dag.DagId = ''etl'', IsPaused = False\<rparr>) (Inl ''unexpected EOF'')
          (Inr \<lparr>DagRuns = [], TotalEntries = 0\<rparr>))
       (demo_plugin\<lparr>Config.Dags := []\<rparr>) []
     = Inr ((CheckStateCritical,
             Some ''could not retrieve DAGs: failed to decode dag list response: unexpected EOF''),
            [], [demo_request ''http://af/api/v1/dags''])"
proof -
  let ?c1 = "fixed_client (Inr \<lparr>Dag.DagId = ''etl'', IsPaused = False\<rparr>) (Inl ''unused'')
        (Inr \<lparr>DagRuns = [\<lparr>State = ''success''\<rparr>], TotalEntries = 1\<rparr>)"
  let ?c2 = "fixed_client (Inr \<lparr>Dag.DagId = ''a'', IsPaused = False\<rparr>)
               (Inr \<lparr>DagList.Dags = [\<lparr>Dag.DagId = ''a'', IsPaused = True\<rparr>,
                                     \<lparr>Dag.DagId = ''b'', IsPaused = False\<rparr>],
                     DagList.TotalEntries = 2\<rparr>)
               (Inr \<lparr>DagRuns = [], TotalEntries = 0\<rparr>)"
  let ?c3 = "fixed_client (Inr \<lparr>Dag.DagId = ''etl'', IsPaused = False\<rparr>) (Inl ''unexpected EOF'')
          (Inr \<lparr>DagRuns = [], TotalEntries = 0\<rparr>)"
  let ?p0 = "demo_plugin\<lparr>Config.Dags := []\<rparr>"
  let ?h = "\<lparr>Health.DagId = ''etl'', Status = CheckStateOK, Error = None\<rparr>"
  let ?s = "[demo_request ''http://af/api/v1/dags/etl'',
             demo_request ''http://af/api/v1/dags/etl/dagRuns?limit=1'']"
  have dags1: "Config.Dags demo_plugin = [''etl'']"
    by (simp add: demo_plugin_def)
  have ne: "Config.Dags demo_plugin \<noteq> []"
    by (simp add: demo_plugin_def)
  have run: "checkDags ?c1 demo_plugin [''etl''] True [] = ([?h], ?s)"
    by (simp add: checkDags_def checkDag_def demo_defs)
  have rep: "executeCheck_report [?h] =
      ((CheckStateOK, None), [''All health checks returning OK for loaded DAGs''])"
    by (simp add: report_defs)
  from working_set_resolution
    [where plugin = demo_plugin and rt = demo_runtime and client = ?c1 and sent = "[]"] ne
  obtain health sent2 where
    "checkDags ?c1 demo_plugin (Config.Dags demo_plugin) True [] = (health, sent2)"
    "executeCheck demo_runtime ?c1 demo_plugin [] =
       Inr (fst (executeCheck_report health), snd (executeCheck_report health), sent2)"
    by blast
  then have part1: "executeCheck demo_runtime ?c1 demo_plugin [] =
      Inr ((CheckStateOK, None), [''All health checks returning OK for loaded DAGs''], ?s)"
    using rep by (auto simp: dags1 run)
  have empty: "Config.Dags ?p0 = []"
    by simp
  have res: "executeCheck_dags demo_runtime ?c2 ?p0 [] =
      Inr (Inr ([''a'', ''b''], False), [demo_request ''http://af/api/v1/dags''])"
    by (simp add: executeCheck_dags_def discovered_dags_result demo_defs)
  from working_set_resolution
    [where plugin = ?p0 and rt = demo_runtime and client = ?c2 and sent = "[]"
       and dags = "[''a'', ''b'']" and explicit = False
       and ?sent1.0 = "[demo_request ''http://af/api/v1/dags'']"]
    empty res
  have part2: "\<exists>dl. getAllDags ?c2 ?p0 [] = ((Some dl, None), [demo_request ''http://af/api/v1/dags''])
        \<and> discovered_dags demo_runtime dl = Inr [''a'', ''b'']"
    by blast
  have fails: "getAllDags ?c3 ?p0 [] =
      ((None, Some ''failed to decode dag list response: unexpected EOF''),
       [demo_request ''http://af/api/v1/dags''])"
    by (simp add: demo_defs)
  from working_set_resolution
    [where plugin = ?p0 and rt = demo_runtime and client = ?c3 and sent = "[]" and dagList = None
       and err = "''failed to decode dag list response: unexpected EOF''"
       and ?sent3.0 = "[demo_request ''http://af/api/v1/dags'']"]
    empty fails
  have part3: "executeCheck demo_runtime ?c3 ?p0 [] =
     Inr ((CheckStateCritical,
             Some ''could not retrieve DAGs: failed to decode dag list response: unexpected EOF''),
            [], [demo_request ''http://af/api/v1/dags''])"
    by simp
  show ?thesis
    using part1 part2 part3 by (intro conjI)
qed

section \<open>Properties of the output lines\<close>

lemma tally_found:
  "found (tally hs t) \<longleftrightarrow> found t \<or> hs \<noteq> []"
  by (induction hs arbitrary: t)
     (simp_all add: tally_step_def Let_def split: option.splits)

lemma tally_stdout_all_ok:
  "list_all (\<lambda>h. Status h = CheckStateOK) hs \<Longrightarrow>
     stdout (tally hs t) =
       stdout t @
       concat (map (\<lambda>h. case Error h of
                            None \<Rightarrow> []
                          | Some e \<Rightarrow> [''Error occurred while checking DAG:'' @ nl @ e @ nl]) hs)"
  by (induction hs arbitrary: t)
     (simp_all add: tally_step_def Let_def fmt_v_def split: option.splits)

lemma all_ok_filters:
  assumes "list_all (\<lambda>h. Status h = CheckStateOK) hs"
  shows "filter (\<lambda>h. Status h = CheckStateCritical) hs = []"
    and "filter (\<lambda>h. Status h = CheckStateUnknown) hs = []"
    and "filter (\<lambda>h. Status h = CheckStateWarning) hs = []"
  using assms by (induction hs) (simp_all add: CheckState_defs)

lemma report_empty:
  "executeCheck_report [] = ((CheckStateOK, None), [''No DAGS loaded''])"
  by (simp add: executeCheck_report_def)

lemma report_all_ok:
  assumes "hs \<noteq> []" and "list_all (\<lambda>h. Status h = CheckStateOK) hs"
  shows "executeCheck_report hs =
           ((CheckStateOK, None),
            concat (map (\<lambda>h. case Error h of
                                 None \<Rightarrow> []
                               | Some e \<Rightarrow> [''Error occurred while checking DAG:'' @ nl @ e @ nl]) hs)
            @ [''All health checks returning OK for loaded DAGs''])"
  using assms
  by (simp add: executeCheck_report_def Let_def tally_criticals tally_unknowns tally_warnings
        tally_found tally_stdout_all_ok all_ok_filters)

lemma error_lines_distinct:
  "x \<in> set (concat (map (\<lambda>h. case Error h of
                                 None \<Rightarrow> []
                               | Some e \<Rightarrow> [''Error occurred while checking DAG:'' @ nl @ e @ nl]) hs))
   \<Longrightarrow> x \<noteq> ''All health checks returning OK for loaded DAGs'' \<and> x \<noteq> ''No DAGS loaded''"
  by (auto split: option.splits)

text \<open>
  C8. When the resolved working set is empty, the check prints the line "No DAGS loaded" and
  nothing else, and returns OK. When the working set is not empty and every result is OK, the
  check returns OK and prints the line "All health checks returning OK for loaded DAGs" once,
  as its last line; before it stand only the error detail lines of the results that carry a
  diagnostic, none of which is the success line, and "No DAGS loaded" is not printed.
\<close>

theorem empty_and_all_ok_lines:
  "(executeCheck_dags rt client plugin sent = Inr (Inr ([], explicit), sent1) \<longrightarrow>
      executeCheck rt client plugin sent = Inr ((CheckStateOK, None), [''No DAGS loaded''], sent1))
   \<and> (executeCheck_dags rt client plugin sent = Inr (Inr (dags, explicit2), sent2)
        \<and> dags \<noteq> []
        \<and> checkDags client plugin dags explicit2 sent2 = (health, sent3)
        \<and> list_all (\<lambda>h. Status h = CheckStateOK) health \<longrightarrow>
      executeCheck rt client plugin sent =
        Inr ((CheckStateOK, None),
             concat (map (\<lambda>h. case Error h of
                                  None \<Rightarrow> []
                                | Some e \<Rightarrow>
                                    [''Error occurred while checking DAG:'' @ nl @ e @ nl]) health)
             @ [''All health checks returning OK for loaded DAGs''],
             sent3)
      \<and> ''All health checks returning OK for loaded DAGs'' \<notin>
          set (concat (map (\<lambda>h. case Error h of
                                  None \<Rightarrow> []
                                | Some e \<Rightarrow>
                                    [''Error occurred while checking DAG:'' @ nl @ e @ nl]) health))
      \<and> ''No DAGS loaded'' \<notin>
          set (concat (map (\<lambda>h. case Error h of
                                  None \<Rightarrow> []
                                | Some e \<Rightarrow>
                                    [''Error occurred while checking DAG:'' @ nl @ e @ nl]) health)
               @ [''All health checks returning OK for loaded DAGs'']))"
proof (intro conjI impI)
  assume "executeCheck_dags rt client plugin sent = Inr (Inr ([], explicit), sent1)"
  then show "executeCheck rt client plugin sent =
      Inr ((CheckStateOK, None), [''No DAGS loaded''], sent1)"
    by (simp add: executeCheck_def checkDags_Nil report_empty)
next
  let ?lines = "concat (map (\<lambda>h. case Error h of
                                  None \<Rightarrow> []
                                | Some e \<Rightarrow>
                                    [''Error occurred while checking DAG:'' @ nl @ e @ nl]) health)"
  assume a: "executeCheck_dags rt client plugin sent = Inr (Inr (dags, explicit2), sent2)
        \<and> dags \<noteq> []
        \<and> checkDags client plugin dags explicit2 sent2 = (health, sent3)
        \<and> list_all (\<lambda>h. Status h = CheckStateOK) health"
  then have run: "checkDags client plugin dags explicit2 sent2 = (health, sent3)"
    and ok: "list_all (\<lambda>h. Status h = CheckStateOK) health"
    and ne: "dags \<noteq> []"
    and res: "executeCheck_dags rt client plugin sent = Inr (Inr (dags, explicit2), sent2)"
    by blast+
  have "map Health.DagId (fst (checkDags client plugin dags explicit2 sent2)) = dags"
    by (rule checkDags_ids)
  then have "health \<noteq> []"
    using ne by (auto simp: run)
  then have "executeCheck_report health =
      ((CheckStateOK, None), ?lines @ [''All health checks returning OK for loaded DAGs''])"
    using ok by (rule report_all_ok)
  then show "executeCheck rt client plugin sent =
      Inr ((CheckStateOK, None),
           ?lines @ [''All health checks returning OK for loaded DAGs''], sent3)"
    by (simp add: executeCheck_def res run)
  show "''All health checks returning OK for loaded DAGs'' \<notin> set ?lines"
    using error_lines_distinct by blast
  show "''No DAGS loaded'' \<notin> set (?lines @ [''All health checks returning OK for loaded DAGs''])"
    using error_lines_distinct [of "''No DAGS loaded''" health] by auto
qed

theorem empty_and_all_ok_lines_witness:
  "executeCheck demo_runtime
     (fixed_client (Inr \<lparr>Dag.DagId = ''etl'', IsPaused = False\<rparr>)
        (Inr \<lparr>DagList.Dags = [], DagList.TotalEntries = 0\<rparr>)
        (Inr \<lparr>DagRuns = [], TotalEntries = 0\<rparr>))
     (demo_plugin\<lparr>Config.Dags := []\<rparr>) []
   = Inr ((CheckStateOK, None), [''No DAGS loaded''], [demo_request ''http://af/api/v1/dags''])
   \<and> executeCheck demo_runtime
       (fixed_client (Inr \<lparr>Dag.DagId = ''etl'', IsPaused = False\<rparr>) (Inl ''unused'')
          (Inr \<lparr>DagRuns = [\<lparr>State = ''success''\<rparr>], TotalEntries = 1\<rparr>))
       demo_plugin []
     = Inr ((CheckStateOK, None), [''All health checks returning OK for loaded DAGs''],
            [demo_request ''http://af/api/v1/dags/etl'',
             demo_request ''http://af/api/v1/dags/etl/dagRuns?limit=1''])"
proof -
  let ?c0 = "fixed_client (Inr \<lparr>Dag.DagId = ''etl'', IsPaused = False\<rparr>)
        (Inr \<lparr>DagList.Dags = [], DagList.TotalEntries = 0\<rparr>)
        (Inr \<lparr>DagRuns = [], TotalEntries = 0\<rparr>)"
  let ?c1 = "fixed_client (Inr \<lparr>Dag.DagId = ''etl'', IsPaused = False\<rparr>) (Inl ''unused'')
        (Inr \<lparr>DagRuns = [\<lparr>State = ''success''\<rparr>], TotalEntries = 1\<rparr>)"
  let ?p0 = "demo_plugin\<lparr>Config.Dags := []\<rparr>"
  let ?h = "\<lparr>Health.DagId = ''etl'', Status = CheckStateOK, Error = None\<rparr>"
  let ?s = "[demo_request ''http://af/api/v1/dags/etl'',
             demo_request ''http://af/api/v1/dags/etl/dagRuns?limit=1'']"
  have res0: "executeCheck_dags demo_runtime ?c0 ?p0 [] =
      Inr (Inr ([], False), [demo_request ''http://af/api/v1/dags''])"
    by (simp add: executeCheck_dags_def discovered_dags_result demo_defs)
  from empty_and_all_ok_lines
    [where rt = demo_runtime and client = ?c0 and plugin = ?p0 and sent = "[]"
       and explicit = False
       and ?sent1.0 = "[demo_request ''http://af/api/v1/dags'']"]
    res0
  have part1: "executeCheck demo_runtime ?c0 ?p0 [] =
      Inr ((CheckStateOK, None), [''No DAGS loaded''], [demo_request ''http://af/api/v1/dags''])"
    by blast
  have res1: "executeCheck_dags demo_runtime ?c1 demo_plugin [] = Inr (Inr ([''etl''], True), [])"
    by (simp add: executeCheck_dags_def demo_plugin_def)
  have run: "checkDags ?c1 demo_plugin [''etl''] True [] = ([?h], ?s)"
    by (simp add: checkDags_def checkDag_def demo_defs)
  have ok: "list_all (\<lambda>h. Status h = CheckStateOK) [?h]"
    by simp
  have ne: "[''etl''] \<noteq> []"
    by simp
  from empty_and_all_ok_lines
    [where rt = demo_runtime and client = ?c1 and plugin = demo_plugin and sent = "[]"
       and dags = "[''etl'']"
       and ?explicit2.0 = True and ?sent2.0 = "[]" and health = "[?h]" and ?sent3.0 = ?s]
    res1 ne run ok
  have "executeCheck demo_runtime ?c1 demo_plugin [] =
        Inr ((CheckStateOK, None),
             concat (map (\<lambda>h. case Error h of
                                  None \<Rightarrow> []
                                | Some e \<Rightarrow>
                                    [''Error occurred while checking DAG:'' @ nl @ e @ nl]) [?h])
             @ [''All health checks returning OK for loaded DAGs''],
             ?s)"
    by blast
  then have part2: "executeCheck demo_runtime ?c1 demo_plugin [] =
      Inr ((CheckStateOK, None), [''All health checks returning OK for loaded DAGs''], ?s)"
    by simp
  show ?thesis
    using part1 part2 by (intro conjI)
qed

end
